theory Spec2Isabelle
  imports Main "HOL-Library.Sublist"
begin

section \<open>Go values shared by the two servers\<close>

text \<open>
  A Go \<^verbatim>\<open>[]byte\<close> and a Go \<^verbatim>\<open>string\<close> are both sequences of bytes; an Isabelle
  \<^typ>\<open>char\<close> is one byte, so both are modelled as \<^typ>\<open>string\<close>. Go's \<^verbatim>\<open>int\<close> is
  \<^typ>\<open>int\<close> where the code lets it be negative (a search result) and \<^typ>\<open>nat\<close> for lengths.
\<close>

type_synonym bytes = string

text \<open>
  The error values the code tells apart: \<^verbatim>\<open>io.EOF\<close> (compared by identity), an error that
  implements \<^verbatim>\<open>net.Error\<close> (with what its \<^verbatim>\<open>Timeout()\<close> returns and its message), a
  \<^verbatim>\<open>*net.AddrError\<close> (fields \<^verbatim>\<open>Err\<close> and \<^verbatim>\<open>Addr\<close>), and any other error with its message.
\<close>

datatype error =
    EOF
  | NetError bool string
  | AddrError string string
  | OtherError string

fun error_Error :: "error \<Rightarrow> string" where
  "error_Error EOF = ''EOF''"
| "error_Error (NetError t msg) = msg"
| "error_Error (AddrError err addr) =
     (if addr = [] then err else ''address '' @ addr @ '': '' @ err)"
| "error_Error (OtherError msg) = msg"

text \<open>\<^verbatim>\<open>netErr, ok := err.(net.Error); ok && netErr.Timeout()\<close>\<close>

fun is_net_timeout :: "error \<Rightarrow> bool" where
  "is_net_timeout (NetError t msg) = t"
| "is_net_timeout e = False"

text \<open>\<^verbatim>\<open>bytes.IndexByte\<close>, \<^verbatim>\<open>strings.LastIndexByte\<close>: the offset of the first (last) occurrence, -1 when there is none.\<close>

fun IndexByte :: "bytes \<Rightarrow> char \<Rightarrow> int" where
  "IndexByte [] c = -1"
| "IndexByte (x # xs) c =
     (if x = c then 0 else (let i = IndexByte xs c in if i < 0 then -1 else i + 1))"

definition LastIndexByte :: "bytes \<Rightarrow> char \<Rightarrow> int" where
  "LastIndexByte s c =
     (let i = IndexByte (rev s) c in if i < 0 then -1 else int (length s) - 1 - i)"

text \<open>\<^verbatim>\<open>bytes.IndexRune(s, r)\<close> with \<^verbatim>\<open>r\<close> below \<^verbatim>\<open>utf8.RuneSelf\<close> is \<^verbatim>\<open>IndexByte(s, byte(r))\<close>; the code only calls it with the newline.\<close>

definition IndexRune :: "bytes \<Rightarrow> char \<Rightarrow> int" where
  "IndexRune s r = IndexByte s r"

fun strings_Contains :: "string \<Rightarrow> string \<Rightarrow> bool" where
  "strings_Contains [] substr = (substr = [])"
| "strings_Contains (x # xs) substr = (prefix substr (x # xs) \<or> strings_Contains xs substr)"


text \<open>Durations in seconds; a \<^verbatim>\<open>time.Duration\<close> that the code compares with zero is an \<^typ>\<open>int\<close>.\<close>

definition dialTimeout :: nat where
  "dialTimeout = 7"

text \<open>
  A connection as the handlers see it. \<open>kind\<close> is the dynamic type behind the
  \<^verbatim>\<open>net.Conn\<close> interface. \<open>rd_chunk\<close> is what the peer has made available to the first
  \<^verbatim>\<open>Read\<close> and \<open>rd_err\<close> the error that \<^verbatim>\<open>Read\<close> returns; \<open>ka_err\<close> and \<open>kap_err\<close> are
  what \<^verbatim>\<open>SetKeepAlive\<close> and \<^verbatim>\<open>SetKeepAlivePeriod\<close> return. \<open>keepAlive\<close> and
  \<open>keepAlivePeriod\<close> are the keepalive state of the socket: whether it is on, and its period.
\<close>

datatype conn_kind = TCPConn | UnixConn | TLSConn

record conn =
  kind :: conn_kind
  RemoteAddr :: string
  rd_chunk :: bytes
  rd_err :: "error option"
  ka_err :: "error option"
  kap_err :: "error option"
  keepAlive :: bool
  keepAlivePeriod :: int

text \<open>The outbound connection returned by the dialer: \<open>wr_err\<close> is what its \<^verbatim>\<open>Write\<close> returns.\<close>

record remote =
  wr_err :: "error option"

type_synonym dialer = "string \<Rightarrow> string \<Rightarrow> error + remote"

text \<open>
  The observable actions of both programs, in program order. \<open>Relay\<close> stands for
  \<^verbatim>\<open>go io.Copy(r, c); io.Copy(c, r)\<close>; \<open>Dial\<close> records each call of \<^verbatim>\<open>localDialFunc\<close>.
\<close>

datatype event =
    PoolGet
  | PoolPut
  | SetReadDeadline "nat option"
  | SetWriteDeadline "nat option"
  | Log "string list"
  | Sleep nat
  | Dial string string
  | Write bytes
  | Relay
  | CloseRemote
  | CloseConn
  | GoServe conn
  | Panic "string list"
  | DoTimeout
  | Hijack

section \<open>The framed-protocol server (tls-server/main.go)\<close>

text \<open>The globals \<^verbatim>\<open>credsLen\<close>, \<^verbatim>\<open>credsByte\<close> and \<^verbatim>\<open>bufLen\<close>, as \<^verbatim>\<open>main\<close> sets them from the flag \<^verbatim>\<open>-u\<close>.\<close>

record config =
  credsLen :: nat
  credsByte :: bytes
  bufLen :: nat

definition main_config :: "string \<Rightarrow> config" where
  "main_config creds =
     \<lparr> credsLen = length creds,
       credsByte = creds,
       bufLen = length creds + 253 + 2 + 1 + 5 + 1 \<rparr>"

text \<open>
  \<^verbatim>\<open>bytePool\<close>: the buffers that were put back, most recent first. \<^verbatim>\<open>Get\<close> hands out one
  of them with whatever it holds, or a fresh zeroed buffer of \<^verbatim>\<open>bufLen\<close> bytes from \<^verbatim>\<open>New\<close>.
\<close>

type_synonym pool = "bytes list"

definition bytePool_New :: "config \<Rightarrow> bytes" where
  "bytePool_New cfg = replicate (bufLen cfg) (CHR 0x00)"

definition bytePool_Get :: "config \<Rightarrow> pool \<Rightarrow> bytes \<times> pool" where
  "bytePool_Get cfg p = (case p of [] \<Rightarrow> (bytePool_New cfg, []) | b # bs \<Rightarrow> (b, bs))"

definition bytePool_Put :: "bytes \<Rightarrow> pool \<Rightarrow> pool" where
  "bytePool_Put b p = b # p"

text \<open>
  \<^verbatim>\<open>n, err := c.Read(buf)\<close>: at most \<^verbatim>\<open>len(buf)\<close> of the available bytes overwrite the
  front of the buffer; the rest of the buffer keeps what it held.
\<close>

definition conn_Read :: "conn \<Rightarrow> bytes \<Rightarrow> nat \<times> error option \<times> bytes" where
  "conn_Read c buf =
     (let d = take (length buf) (rd_chunk c); n = length d
      in (n, rd_err c, d @ drop n buf))"

text \<open>
  \<^verbatim>\<open>serve\<close>, branch by branch. The result is the trace of actions and the pool afterwards.
  The deferred \<^verbatim>\<open>c.Close()\<close> and \<^verbatim>\<open>r.Close()\<close> end each trace, last deferred first.
\<close>

definition serve :: "config \<Rightarrow> dialer \<Rightarrow> pool \<Rightarrow> conn \<Rightarrow> event list \<times> pool" where
  "serve cfg localDialFunc p c =
     (let (buf0, p0) = bytePool_Get cfg p;
          (n, err, buf) = conn_Read c buf0;
          start = [PoolGet, SetReadDeadline (Some dialTimeout)]
      in (case err of
        Some e \<Rightarrow>
          (start @ [PoolPut, Log [''read:'', RemoteAddr c, error_Error e], CloseConn],
           bytePool_Put buf p0)
      | None \<Rightarrow>
         (if n < credsLen cfg then
            (start @ [Log [buf], PoolPut, Log [''read n < credsLen'', RemoteAddr c], CloseConn],
             bytePool_Put buf p0)
          else
           (let addr = take n buf;
                idx = IndexRune addr (CHR 0x0A);
                start = start @ [SetReadDeadline None]
            in
            if idx = -1 then
              (start @ [PoolPut, Log [''read not found '' @ [CHR 0x5C, CHR ''n''], RemoteAddr c],
                 CloseConn],
               bytePool_Put buf p0)
            else if idx \<le> int (credsLen cfg) then
              (start @ [Log [buf], PoolPut, Log [''read idx < bufLen'', RemoteAddr c], CloseConn],
               bytePool_Put buf p0)
            else
             (let authStr = take (credsLen cfg) addr in
              if authStr \<noteq> credsByte cfg then
                (start @ [PoolPut, Log [''auth failed'', RemoteAddr c], CloseConn],
                 bytePool_Put buf p0)
              else
               (let rest = drop (nat (idx + 1)) addr;
                    addr = drop (credsLen cfg) (take (nat idx) addr);
                    start = start @ [Dial ''tcp'' addr]
                in
                (case localDialFunc ''tcp'' addr of
                  Inl e \<Rightarrow>
                    (start @ [PoolPut, Log [''remote connect failed'', RemoteAddr c], CloseConn],
                     bytePool_Put buf p0)
                | Inr r \<Rightarrow>
                   (if length rest \<noteq> 0 then
                      (case wr_err r of
                         Some e \<Rightarrow>
                           (start @ [SetWriteDeadline (Some dialTimeout), Write rest, PoolPut,
                              Log [''remote write failed:'', RemoteAddr c, error_Error e],
                              CloseRemote, CloseConn],
                            bytePool_Put buf p0)
                       | None \<Rightarrow>
                           (start @ [SetWriteDeadline (Some dialTimeout), Write rest,
                              SetWriteDeadline None, PoolPut, Relay, CloseRemote, CloseConn],
                            bytePool_Put buf p0))
                    else
                      (start @ [PoolPut, Relay, CloseRemote, CloseConn],
                       bytePool_Put buf p0)))))))))"

text \<open>What a trace shows of the outbound side: the addresses dialed and the bytes written to the target.\<close>

fun dialed :: "event list \<Rightarrow> string list" where
  "dialed [] = []"
| "dialed (Dial network a # es) = a # dialed es"
| "dialed (e # es) = dialed es"

fun written :: "event list \<Rightarrow> bytes" where
  "written [] = []"
| "written (Write b # es) = b @ written es"
| "written (e # es) = written es"

subsection \<open>Accepting connections\<close>

text \<open>
  The globals \<^verbatim>\<open>TCPKeepalive\<close> and \<^verbatim>\<open>TCPKeepalivePeriod\<close>. The program initialises the first
  to \<^verbatim>\<open>true\<close> and never assigns the second, which so keeps its zero value.
\<close>

record globals =
  TCPKeepalive :: bool
  TCPKeepalivePeriod :: int

definition program_globals :: globals where
  "program_globals = \<lparr> TCPKeepalive = True, TCPKeepalivePeriod = 0 \<rparr>"

text \<open>
  A listener is the sequence of results that its \<^verbatim>\<open>Accept\<close> calls return; once the sequence
  is used up, \<^verbatim>\<open>Accept\<close> does not return. \<^verbatim>\<open>tls.NewListener\<close> passes the errors of the
  inner listener on and wraps each accepted connection, whose dynamic type then is
  \<^verbatim>\<open>*tls.Conn\<close>.
\<close>

datatype accepted = Accepted conn | AcceptError error

type_synonym listener = "accepted list"





fun tls_Server :: "accepted \<Rightarrow> accepted" where
  "tls_Server (Accepted c) = Accepted (c\<lparr>kind := TLSConn\<rparr>)"
| "tls_Server (AcceptError err) = AcceptError err"

definition tls_NewListener :: "listener \<Rightarrow> listener" where
  "tls_NewListener ln = map tls_Server ln"

text \<open>
  \<^verbatim>\<open>acceptConn\<close>: the trace, the result (\<open>None\<close> when \<^verbatim>\<open>Accept\<close> never returns) and what is
  left of the listener. The type assertion \<^verbatim>\<open>c.(*net.TCPConn)\<close> is the test \<open>kind c = TCPConn\<close>.
\<close>

fun acceptConn :: "globals \<Rightarrow> listener \<Rightarrow> event list \<times> (error + conn) option \<times> listener" where
  "acceptConn g [] = ([], None, [])"
| "acceptConn g (AcceptError err # ln) =
     (if is_net_timeout err then
        (let (evs, res, ln') = acceptConn g ln
         in (Log [''Timeout error when accepting new connections:'', error_Error err] # Sleep 1 # evs,
             res, ln'))
      else if err \<noteq> EOF \<and>
              \<not> strings_Contains (error_Error err) ''use of closed network connection'' then
        ([Log [''Permanent error when accepting new connections:'', error_Error err]],
         Some (Inl err), ln)
      else ([], Some (Inl EOF), ln))"
| "acceptConn g (Accepted c # ln) =
     (if kind c = TCPConn \<and> TCPKeepalive g then
        (case ka_err c of
           Some err \<Rightarrow> ([CloseConn], Some (Inl err), ln)
         | None \<Rightarrow>
            (let c = c\<lparr>keepAlive := TCPKeepalive g\<rparr> in
             if TCPKeepalivePeriod g > 0 then
               (case kap_err c of
                  Some err \<Rightarrow> ([CloseConn], Some (Inl err), ln)
                | None \<Rightarrow> ([], Some (Inr (c\<lparr>keepAlivePeriod := TCPKeepalivePeriod g\<rparr>)), ln))
             else ([], Some (Inr c), ln)))
      else ([], Some (Inr c), ln))"

text \<open>
  The loop of \<^verbatim>\<open>main\<close>: \<^verbatim>\<open>go serve(c)\<close> is the action \<open>GoServe c\<close>, \<^verbatim>\<open>log.Panicln(err)\<close> the
  action \<open>Panic\<close>. The loop ends by returning, by panicking, or not at all (\<open>Waiting\<close>, in
  an \<^verbatim>\<open>Accept\<close> that never returns).
\<close>

datatype exit = Returned | Panicked | Waiting

function main_loop :: "globals \<Rightarrow> listener \<Rightarrow> event list \<times> exit" where
  "main_loop g tlsLn =
     (case acceptConn g tlsLn of
        (evs, None, ln') \<Rightarrow> (evs, Waiting)
      | (evs, Some (Inl err), ln') \<Rightarrow>
          (if err = EOF then (evs, Returned) else (evs @ [Panic [error_Error err]], Panicked))
      | (evs, Some (Inr c), ln') \<Rightarrow>
          (let (evs', x) = main_loop g ln' in (evs @ GoServe c # evs', x)))"
  by pat_completeness auto
termination
proof (relation "measure (\<lambda>(g, ln). length ln)")
  show "wf (measure (\<lambda>(g, ln). length ln))" by simp
next
  fix g :: globals and tlsLn :: listener and evs res r ln' x c
  assume acc: "(evs, res) = acceptConn g tlsLn" "(r, ln') = res" "r = Some x" "x = Inr c"
  have shorter: "length l' < length l" if "acceptConn g l = (es, Some y, l')" for l es y l'
    using that
  proof (induction l arbitrary: es)
    case Nil
    then show ?case by simp
  next
    case (Cons a l)
    show ?case
    proof (cases a)
      case (Accepted k)
      with Cons.prems show ?thesis
        by (auto simp: Let_def split: if_splits option.splits)
    next
      case (AcceptError err)
      show ?thesis
      proof (cases "is_net_timeout err")
        case True
        with Cons.prems AcceptError obtain es' where "acceptConn g l = (es', Some y, l')"
          by (auto split: prod.splits)
        from Cons.IH [OF this] show ?thesis by simp
      next
        case False
        with Cons.prems AcceptError show ?thesis
          by (auto split: if_splits)
      qed
    qed
  qed
  from acc have "acceptConn g tlsLn = (evs, Some x, ln')" by simp
  from shorter [OF this] show "((g, ln'), (g, tlsLn)) \<in> measure (\<lambda>(g, ln). length ln)"
    by simp
qed

declare main_loop.simps [simp del]

text \<open>\<^verbatim>\<open>main\<close> from the creation of the TLS listener on.\<close>

definition main :: "globals \<Rightarrow> listener \<Rightarrow> event list \<times> exit" where
  "main g ln = main_loop g (tls_NewListener ln)"

section \<open>The HTTP proxy server\<close>

subsection \<open>Library functions the handler calls\<close>

text \<open>
  \<^verbatim>\<open>base64.StdEncoding.EncodeToString\<close>: three bytes become four characters of the standard
  alphabet; a rest of one or two bytes is padded with \<open>=\<close>.
\<close>

definition encodeStd :: string where
  "encodeStd = ''ABCDEFGHIJKLMNOPQRSTUVWXYZabcdefghijklmnopqrstuvwxyz0123456789+/''"

fun EncodeToString :: "bytes \<Rightarrow> string" where
  "EncodeToString [] = []"
| "EncodeToString [a] =
     (let val = (of_char a :: nat) * 65536
      in [encodeStd ! (val div 262144 mod 64), encodeStd ! (val div 4096 mod 64),
          CHR ''='', CHR ''=''])"
| "EncodeToString [a, b] =
     (let val = (of_char a :: nat) * 65536 + of_char b * 256
      in [encodeStd ! (val div 262144 mod 64), encodeStd ! (val div 4096 mod 64),
          encodeStd ! (val div 64 mod 64), CHR ''=''])"
| "EncodeToString (a # b # c # src) =
     (let val = (of_char a :: nat) * 65536 + of_char b * 256 + of_char c
      in [encodeStd ! (val div 262144 mod 64), encodeStd ! (val div 4096 mod 64),
          encodeStd ! (val div 64 mod 64), encodeStd ! (val mod 64)] @ EncodeToString src)"

text \<open>
  \<^verbatim>\<open>net.SplitHostPort\<close>, with its checks in the order of the library: the port starts after
  the last colon; a host that starts with \<open>[\<close> ends at the first \<open>]\<close>, which must stand just
  before that colon; no other bracket and, outside brackets, no other colon is allowed.
\<close>

definition missingPort :: string where
  "missingPort = ''missing port in address''"

definition tooManyColons :: string where
  "tooManyColons = ''too many colons in address''"

definition SplitHostPort :: "string \<Rightarrow> error + string \<times> string" where
  "SplitHostPort hostport =
     (let i = LastIndexByte hostport (CHR '':'');
          check = (\<lambda>host j k.
            if IndexByte (drop j hostport) (CHR ''['') \<ge> 0 then
              Inl (AddrError (''unexpected '' @ [CHR 0x27, CHR ''['', CHR 0x27] @ '' in address'') hostport)
            else if IndexByte (drop k hostport) (CHR '']'') \<ge> 0 then
              Inl (AddrError (''unexpected '' @ [CHR 0x27, CHR '']'', CHR 0x27] @ '' in address'') hostport)
            else Inr (host, drop (nat (i + 1)) hostport))
      in
      if i < 0 then Inl (AddrError missingPort hostport)
      else if hostport ! 0 = CHR ''['' then
        (let end = IndexByte hostport (CHR '']'') in
         if end < 0 then
           Inl (AddrError (''missing '' @ [CHR 0x27, CHR '']'', CHR 0x27] @ '' in address'') hostport)
         else if end + 1 = int (length hostport) then Inl (AddrError missingPort hostport)
         else if end + 1 = i then check (drop 1 (take (nat end) hostport)) 1 (nat (end + 1))
         else if hostport ! nat (end + 1) = CHR '':'' then Inl (AddrError tooManyColons hostport)
         else Inl (AddrError missingPort hostport))
      else
        (let host = take (nat i) hostport in
         if IndexByte host (CHR '':'') \<ge> 0 then Inl (AddrError tooManyColons hostport)
         else check host 0 0))"

subsection \<open>The dial function of the forwarding client\<close>


subsection \<open>The request handler\<close>

text \<open>
  What the handler reads of a request: method, host, path and the value of the header
  \<^verbatim>\<open>Proxy-Authorization\<close> as \<^verbatim>\<open>Peek\<close> returns it (empty when the header is absent). The
  scheme of the request URI, as \<^verbatim>\<open>URI().Scheme()\<close> returns it, is read by the forwarding client
  only. Of the response the handler sets the status code (200 until set otherwise) and two
  headers.
\<close>

record request =
  Method :: bytes
  Host :: bytes
  Path :: bytes
  ProxyAuthorization :: bytes
  Scheme :: bytes

record response =
  statusCode :: nat
  header :: "string \<rightharpoonup> string"

definition StatusOK :: nat where
  "StatusOK = 200"

definition StatusBadRequest :: nat where
  "StatusBadRequest = 400"

definition StatusInternalServerError :: nat where
  "StatusInternalServerError = 500"

text \<open>
  The forwarding of a plain request by \<^verbatim>\<open>httpClientLocal.DoTimeout\<close> is outside the handler:
  it is a parameter that returns the error, if any, and the response as the client left it.
\<close>

type_synonym forwarder = "request \<Rightarrow> response \<Rightarrow> error option \<times> response"

text \<open>
  \<^verbatim>\<open>httpsHandler\<close>: \<open>Hijack\<close> is the registration of the function that, once the response
  is sent, copies between client and target in both directions and then closes both.
\<close>

definition httpsHandler :: "dialer \<Rightarrow> response \<Rightarrow> string \<Rightarrow> event list \<times> error option \<times> response" where
  "httpsHandler localDialFunc resp remoteAddr =
     (case localDialFunc ''tcp'' remoteAddr of
        Inl err \<Rightarrow> ([Dial ''tcp'' remoteAddr], Some err, resp)
      | Inr r \<Rightarrow>
          ([Dial ''tcp'' remoteAddr, Hijack], None,
           resp\<lparr>statusCode := StatusOK,
                header := (header resp)(''Connection'' \<mapsto> ''keep-alive'',
                                        ''Keep-Alive'' \<mapsto> ''timeout=120, max=5'')\<rparr>))"

text \<open>
  \<^verbatim>\<open>requestHandler\<close>, with the global \<^verbatim>\<open>proxyAuth\<close> (\<open>None\<close> for \<^verbatim>\<open>nil\<close>) as its first
  argument. \<^verbatim>\<open>string(ctx.Path())[1:]\<close> panics on an empty path.
\<close>

definition requestHandler ::
    "bytes option \<Rightarrow> dialer \<Rightarrow> forwarder \<Rightarrow> request \<Rightarrow> event list \<times> response" where
  "requestHandler proxyAuth localDialFunc doTimeout req =
     (let resp = \<lparr> statusCode = StatusOK, header = Map.empty \<rparr> in
      if (case proxyAuth of None \<Rightarrow> False | Some pa \<Rightarrow> ProxyAuthorization req \<noteq> pa) then
        ([Log [''Reject: wrong creds'']], resp\<lparr>statusCode := StatusBadRequest\<rparr>)
      else if length (Host req) < 1 \<and> length (Path req) < 1 then
        ([Panic [''slice bounds out of range'']], resp)
      else
       (let host = (if length (Host req) < 1 then drop 1 (Path req) else Host req) in
        if length host < 1 then
          ([Log [''Reject: Empty host'']], resp\<lparr>statusCode := StatusBadRequest\<rparr>)
        else
         (let r = SplitHostPort host;
              r = (case r of
                     Inl (AddrError err1 a) \<Rightarrow>
                       (if strings_Contains err1 ''missing port''
                        then SplitHostPort (host @ '':443'') else r)
                   | _ \<Rightarrow> r)
          in case r of
               Inl err \<Rightarrow>
                 ([Log [''Reject: Invalid host'', host, error_Error err]],
                  resp\<lparr>statusCode := StatusBadRequest\<rparr>)
             | Inr (hostname, port) \<Rightarrow>
                (if Method req = ''CONNECT'' then
                   (case httpsHandler localDialFunc resp (''['' @ hostname @ '']:'' @ port) of
                      (evs, Some err, resp') \<Rightarrow>
                        (evs @ [Log [''httpsHandler:'', host, error_Error err]],
                         resp'\<lparr>statusCode := StatusInternalServerError\<rparr>)
                    | (evs, None, resp') \<Rightarrow> (evs, resp'))
                 else
                   (case doTimeout req resp of
                      (Some err, resp') \<Rightarrow>
                        ([DoTimeout, Log [''httpHandler:'', host, error_Error err]],
                         resp'\<lparr>statusCode := StatusInternalServerError\<rparr>)
                    | (None, resp') \<Rightarrow> ([DoTimeout], resp'))))))"

subsection \<open>The forwarding client\<close>





text \<open>The global \<^verbatim>\<open>proxyAuth\<close> as \<^verbatim>\<open>main\<close> computes it from the flag \<^verbatim>\<open>-u\<close>.\<close>

definition main_proxyAuth :: "string \<Rightarrow> bytes option" where
  "main_proxyAuth creds =
     (if creds \<noteq> [] then Some (''Basic '' @ EncodeToString creds) else None)"

section \<open>Notions used to state the properties\<close>

text \<open>
  The bytes \<^verbatim>\<open>buf[:n]\<close> that the first \<^verbatim>\<open>Read\<close> of \<^verbatim>\<open>serve\<close> delivers, and the whole
  buffer after that read (the bytes read, then whatever the pooled buffer held behind them).
\<close>

definition first_read :: "config \<Rightarrow> pool \<Rightarrow> conn \<Rightarrow> bytes" where
  "first_read cfg p c = take (length (fst (bytePool_Get cfg p))) (rd_chunk c)"

definition read_buf :: "config \<Rightarrow> pool \<Rightarrow> conn \<Rightarrow> bytes" where
  "read_buf cfg p c =
     first_read cfg p c @ drop (length (first_read cfg p c)) (fst (bytePool_Get cfg p))"

text \<open>
  A rejected session: nothing was dialed, nothing written to a target, no relay started,
  the buffer went back to the pool once and the connection was closed, as the last action.
\<close>

definition session_rejected :: "event list \<Rightarrow> bool" where
  "session_rejected evs =
     (dialed evs = [] \<and> written evs = [] \<and> count_list evs Relay = 0 \<and>
      count_list evs PoolPut = 1 \<and> count_list evs CloseConn = 1 \<and> last evs = CloseConn)"

text \<open>The part of a trace that precedes the start of the relay (all of it, if no relay starts).\<close>

definition before_relay :: "event list \<Rightarrow> event list" where
  "before_relay evs = takeWhile (\<lambda>e. e \<noteq> Relay) evs"

text \<open>The five checks that \<^verbatim>\<open>serve\<close> makes before it dials, all passed.\<close>

definition authenticated :: "config \<Rightarrow> pool \<Rightarrow> conn \<Rightarrow> bool" where
  "authenticated cfg p c =
     (rd_err c = None \<and> \<not> length (first_read cfg p c) < credsLen cfg \<and>
      IndexRune (first_read cfg p c) (CHR 0x0A) \<noteq> - 1 \<and>
      \<not> IndexRune (first_read cfg p c) (CHR 0x0A) \<le> int (credsLen cfg) \<and>
      take (credsLen cfg) (first_read cfg p c) = credsByte cfg)"


text \<open>Every buffer in the pool has the length that \<^verbatim>\<open>New\<close> gives it.\<close>

definition pool_ok :: "config \<Rightarrow> pool \<Rightarrow> bool" where
  "pool_ok cfg p = list_all (\<lambda>b. length b = bufLen cfg) p"

text \<open>
  Concrete surroundings for the examples: a dialer that always connects, a forwarder and
  an exchange with the target that always succeed, an accepted connection of a given dynamic type that offers one frame,
  and such a connection behind TLS.
\<close>

definition dial_ok :: dialer where
  "dial_ok network address = Inr \<lparr> wr_err = None \<rparr>"

definition peer :: "conn_kind \<Rightarrow> bytes \<Rightarrow> conn" where
  "peer k frame = \<lparr> kind = k, RemoteAddr = ''198.51.100.7:50000'', rd_chunk = frame,
     rd_err = None, ka_err = None, kap_err = None, keepAlive = False, keepAlivePeriod = 0 \<rparr>"

definition forward_ok :: forwarder where
  "forward_ok req resp = (None, resp)"


definition client :: "bytes \<Rightarrow> conn" where
  "client frame = \<lparr> kind = TLSConn, RemoteAddr = ''198.51.100.7:50000'', rd_chunk = frame,
     rd_err = None, ka_err = None, kap_err = None, keepAlive = False, keepAlivePeriod = 0 \<rparr>"

section \<open>Properties of the framed-protocol handler\<close>

subsection \<open>The handler, one branch at a time\<close>

lemma conn_Read_first_read:
  "conn_Read c (fst (bytePool_Get cfg p)) =
     (length (first_read cfg p c), rd_err c, read_buf cfg p c)"
  by (simp add: conn_Read_def first_read_def read_buf_def Let_def)

lemma take_read_buf [simp]: "take (length (first_read cfg p c)) (read_buf cfg p c) = first_read cfg p c"
  by (simp add: read_buf_def)

lemma serve_pool:
  "snd (serve cfg localDialFunc p c) = bytePool_Put (read_buf cfg p c) (snd (bytePool_Get cfg p))"
  by (simp add: serve_def split_beta conn_Read_first_read Let_def split: option.splits sum.splits)

lemma serve_read_error:
  assumes "rd_err c = Some e"
  shows "fst (serve cfg localDialFunc p c) =
    [PoolGet, SetReadDeadline (Some dialTimeout), PoolPut,
     Log [''read:'', RemoteAddr c, error_Error e], CloseConn]"
  using assms
  by (simp add: serve_def split_beta conn_Read_first_read)

lemma serve_short:
  assumes "rd_err c = None" "length (first_read cfg p c) < credsLen cfg"
  shows "fst (serve cfg localDialFunc p c) =
    [PoolGet, SetReadDeadline (Some dialTimeout), Log [read_buf cfg p c], PoolPut,
     Log [''read n < credsLen'', RemoteAddr c], CloseConn]"
  using assms
  by (simp add: serve_def split_beta conn_Read_first_read)

lemma serve_no_newline:
  assumes "rd_err c = None" "\<not> length (first_read cfg p c) < credsLen cfg"
    "IndexRune (first_read cfg p c) (CHR 0x0A) = -1"
  shows "fst (serve cfg localDialFunc p c) =
    [PoolGet, SetReadDeadline (Some dialTimeout), SetReadDeadline None, PoolPut,
     Log [''read not found '' @ [CHR 0x5C, CHR ''n''], RemoteAddr c], CloseConn]"
  using assms
  by (simp add: serve_def split_beta conn_Read_first_read)

lemma serve_early_newline:
  assumes "rd_err c = None" "\<not> length (first_read cfg p c) < credsLen cfg"
    "IndexRune (first_read cfg p c) (CHR 0x0A) \<noteq> -1"
    "IndexRune (first_read cfg p c) (CHR 0x0A) \<le> int (credsLen cfg)"
  shows "fst (serve cfg localDialFunc p c) =
    [PoolGet, SetReadDeadline (Some dialTimeout), SetReadDeadline None, Log [read_buf cfg p c],
     PoolPut, Log [''read idx < bufLen'', RemoteAddr c], CloseConn]"
  using assms
  by (simp add: serve_def split_beta conn_Read_first_read)

lemma serve_auth_failed:
  assumes "rd_err c = None" "\<not> length (first_read cfg p c) < credsLen cfg"
    "IndexRune (first_read cfg p c) (CHR 0x0A) \<noteq> -1"
    "\<not> IndexRune (first_read cfg p c) (CHR 0x0A) \<le> int (credsLen cfg)"
    "take (credsLen cfg) (first_read cfg p c) \<noteq> credsByte cfg"
  shows "fst (serve cfg localDialFunc p c) =
    [PoolGet, SetReadDeadline (Some dialTimeout), SetReadDeadline None, PoolPut,
     Log [''auth failed'', RemoteAddr c], CloseConn]"
  using assms
  by (simp add: serve_def split_beta conn_Read_first_read)

lemma serve_authenticated:
  assumes "rd_err c = None" "\<not> length (first_read cfg p c) < credsLen cfg"
    "IndexRune (first_read cfg p c) (CHR 0x0A) \<noteq> -1"
    "\<not> IndexRune (first_read cfg p c) (CHR 0x0A) \<le> int (credsLen cfg)"
    "take (credsLen cfg) (first_read cfg p c) = credsByte cfg"
  shows "fst (serve cfg localDialFunc p c) =
    (let idx = IndexRune (first_read cfg p c) (CHR 0x0A);
         rest = drop (nat (idx + 1)) (first_read cfg p c);
         addr = drop (credsLen cfg) (take (nat idx) (first_read cfg p c));
         start = [PoolGet, SetReadDeadline (Some dialTimeout), SetReadDeadline None, Dial ''tcp'' addr]
     in case localDialFunc ''tcp'' addr of
          Inl e \<Rightarrow> start @ [PoolPut, Log [''remote connect failed'', RemoteAddr c], CloseConn]
        | Inr r \<Rightarrow>
            (if rest = [] then start @ [PoolPut, Relay, CloseRemote, CloseConn]
             else case wr_err r of
               Some e \<Rightarrow> start @ [SetWriteDeadline (Some dialTimeout), Write rest, PoolPut,
                            Log [''remote write failed:'', RemoteAddr c, error_Error e],
                            CloseRemote, CloseConn]
             | None \<Rightarrow> start @ [SetWriteDeadline (Some dialTimeout), Write rest,
                            SetWriteDeadline None, PoolPut, Relay, CloseRemote, CloseConn]))"
  using assms
  by (simp add: serve_def split_beta conn_Read_first_read Let_def split: sum.splits option.splits)



subsection \<open>Searching for a byte\<close>

lemma IndexByte_ge: "- 1 \<le> IndexByte xs c"
  by (induction xs) (auto simp: Let_def)


lemma IndexByte_neg: "IndexByte xs c < 0 \<longleftrightarrow> c \<notin> set xs"
  by (induction xs) (auto simp: Let_def)

lemma IndexByte_none: "IndexByte xs c = - 1 \<longleftrightarrow> c \<notin> set xs"
  using IndexByte_ge [of xs c] IndexByte_neg [of xs c] by linarith

lemma IndexByte_first: "c \<notin> set xs \<Longrightarrow> IndexByte (xs @ c # ys) c = int (length xs)"
  by (induction xs) (auto simp: Let_def)

lemma serve_rejects:
  assumes "rd_err c \<noteq> None \<or> length (first_read cfg p c) < credsLen cfg
      \<or> IndexRune (first_read cfg p c) (CHR 0x0A) = - 1
      \<or> IndexRune (first_read cfg p c) (CHR 0x0A) \<le> int (credsLen cfg)
      \<or> take (credsLen cfg) (first_read cfg p c) \<noteq> credsByte cfg"
  shows "session_rejected (fst (serve cfg localDialFunc p c))"
proof (cases "rd_err c")
  case (Some e)
  then show ?thesis by (simp add: serve_read_error session_rejected_def)
next
  case None
  show ?thesis
  proof (cases "length (first_read cfg p c) < credsLen cfg")
    case True
    with None show ?thesis by (simp add: serve_short session_rejected_def)
  next
    case long: False
    show ?thesis
    proof (cases "IndexRune (first_read cfg p c) (CHR 0x0A) = - 1")
      case True
      with None long show ?thesis by (simp add: serve_no_newline session_rejected_def)
    next
      case found: False
      show ?thesis
      proof (cases "IndexRune (first_read cfg p c) (CHR 0x0A) \<le> int (credsLen cfg)")
        case True
        with None long found show ?thesis
          by (simp add: serve_early_newline session_rejected_def)
      next
        case False
        with assms None long found
        have "take (credsLen cfg) (first_read cfg p c) \<noteq> credsByte cfg" by simp
        with None long found False show ?thesis
          by (simp add: serve_auth_failed session_rejected_def)
      qed
    qed
  qed
qed

subsection \<open>Rejection\<close>

text \<open>
  C1. Whatever the secret, a handshake whose first \<open>len(secret)\<close> bytes are not the secret
  (a shorter handshake included) is rejected: the buffer goes back to the pool, the
  connection is closed and no address is dialed.
\<close>

theorem serve_rejects_wrong_secret:
  assumes "take (length secret) (rd_chunk c) \<noteq> secret"
  shows "session_rejected (fst (serve (main_config secret) localDialFunc p c)) \<and>
         snd (serve (main_config secret) localDialFunc p c) =
           bytePool_Put (read_buf (main_config secret) p c) (snd (bytePool_Get (main_config secret) p))"
proof -
  let ?cfg = "main_config secret"
  let ?d = "first_read ?cfg p c"
  have cl: "credsLen ?cfg = length secret" and cb: "credsByte ?cfg = secret"
    by (simp_all add: main_config_def)
  have "length ?d < credsLen ?cfg \<or> take (credsLen ?cfg) ?d \<noteq> credsByte ?cfg"
  proof (cases "length secret \<le> length (fst (bytePool_Get ?cfg p))")
    case True
    then have "take (length secret) ?d = take (length secret) (rd_chunk c)"
      by (simp add: first_read_def min_def)
    with assms show ?thesis by (simp add: cl cb)
  next
    case False
    then have "length ?d < length secret" by (simp add: first_read_def)
    then show ?thesis by (simp add: cl)
  qed
  then have "session_rejected (fst (serve ?cfg localDialFunc p c))"
    by (intro serve_rejects) blast
  then show ?thesis by (simp add: serve_pool)
qed

theorem serve_rejects_wrong_secret_witness:
  "take (length ''tok1'') (rd_chunk (client ''tok2127.0.0.1:9000\<newline>HELLO'')) \<noteq> ''tok1'' \<and>
   session_rejected (fst (serve (main_config ''tok1'') dial_ok []
      (client ''tok2127.0.0.1:9000\<newline>HELLO''))) \<and>
   dialed (fst (serve (main_config ''tok1'') dial_ok []
      (client ''tok2127.0.0.1:9000\<newline>HELLO''))) = []"
  using serve_rejects_wrong_secret [of "''tok1''" "client ''tok2127.0.0.1:9000\<newline>HELLO''" dial_ok "[]"]
  by (simp add: client_def session_rejected_def)

text \<open>
  C2. If the first read returns an error, or fewer bytes than the secret has, or bytes
  without a newline, or bytes whose first newline is at an offset not beyond the length of
  the secret, the session is rejected (buffer returned, connection closed) and nothing is dialed.
\<close>

theorem serve_rejects_malformed_read:
  assumes rd: "conn_Read c (fst (bytePool_Get (main_config secret) p)) = (n, err, buf)"
    and bad: "err \<noteq> None \<or> n < length secret
      \<or> IndexRune (take n buf) (CHR 0x0A) = - 1
      \<or> IndexRune (take n buf) (CHR 0x0A) \<le> int (length secret)"
  shows "session_rejected (fst (serve (main_config secret) localDialFunc p c)) \<and>
         snd (serve (main_config secret) localDialFunc p c) =
           bytePool_Put buf (snd (bytePool_Get (main_config secret) p))"
proof -
  let ?cfg = "main_config secret"
  from rd have n: "n = length (first_read ?cfg p c)" and err: "err = rd_err c"
    and buf: "buf = read_buf ?cfg p c"
    by (simp_all add: conn_Read_first_read)
  have cl: "credsLen ?cfg = length secret" by (simp add: main_config_def)
  from bad have "session_rejected (fst (serve ?cfg localDialFunc p c))"
    by (intro serve_rejects) (auto simp: n err buf cl)
  then show ?thesis by (simp add: serve_pool buf)
qed

theorem serve_rejects_malformed_read_witness:
  "session_rejected (fst (serve (main_config ''tok1'') dial_ok []
      ((client ''tok1127.0.0.1:9000\<newline>HELLO'')\<lparr>rd_err := Some EOF\<rparr>))) \<and>
   session_rejected (fst (serve (main_config ''tok1'') dial_ok [] (client ''to''))) \<and>
   session_rejected (fst (serve (main_config ''tok1'') dial_ok [] (client ''tok1127.0.0.1:9000''))) \<and>
   session_rejected (fst (serve (main_config ''tok1'') dial_ok [] (client ''tok1\<newline>X'')))"
proof -
  have rd1: "conn_Read ((client ''tok1127.0.0.1:9000\<newline>HELLO'')\<lparr>rd_err := Some EOF\<rparr>)
        (fst (bytePool_Get (main_config ''tok1'') [])) =
      (24, Some EOF, ''tok1127.0.0.1:9000\<newline>HELLO'' @ replicate 242 (CHR 0x00))"
    by (simp add: conn_Read_def bytePool_Get_def bytePool_New_def main_config_def client_def)
  have rd2: "conn_Read (client ''to'') (fst (bytePool_Get (main_config ''tok1'') [])) =
      (2, None, ''to'' @ replicate 264 (CHR 0x00))"
    by (simp add: conn_Read_def bytePool_Get_def bytePool_New_def main_config_def client_def)
  have rd3: "conn_Read (client ''tok1127.0.0.1:9000'') (fst (bytePool_Get (main_config ''tok1'') [])) =
      (18, None, ''tok1127.0.0.1:9000'' @ replicate 248 (CHR 0x00))"
    by (simp add: conn_Read_def bytePool_Get_def bytePool_New_def main_config_def client_def)
  have rd4: "conn_Read (client ''tok1\<newline>X'') (fst (bytePool_Get (main_config ''tok1'') [])) =
      (6, None, ''tok1\<newline>X'' @ replicate 260 (CHR 0x00))"
    by (simp add: conn_Read_def bytePool_Get_def bytePool_New_def main_config_def client_def)
  have bad1: "Some EOF \<noteq> None \<or> 24 < length ''tok1''
      \<or> IndexRune (take 24 (''tok1127.0.0.1:9000\<newline>HELLO'' @ replicate 242 (CHR 0x00))) (CHR 0x0A) = - 1
      \<or> IndexRune (take 24 (''tok1127.0.0.1:9000\<newline>HELLO'' @ replicate 242 (CHR 0x00))) (CHR 0x0A)
          \<le> int (length ''tok1'')"
    by simp
  have bad2: "None \<noteq> (None :: error option) \<or> 2 < length ''tok1''
      \<or> IndexRune (take 2 (''to'' @ replicate 264 (CHR 0x00))) (CHR 0x0A) = - 1
      \<or> IndexRune (take 2 (''to'' @ replicate 264 (CHR 0x00))) (CHR 0x0A) \<le> int (length ''tok1'')"
    by simp
  have bad3: "None \<noteq> (None :: error option) \<or> 18 < length ''tok1''
      \<or> IndexRune (take 18 (''tok1127.0.0.1:9000'' @ replicate 248 (CHR 0x00))) (CHR 0x0A) = - 1
      \<or> IndexRune (take 18 (''tok1127.0.0.1:9000'' @ replicate 248 (CHR 0x00))) (CHR 0x0A)
          \<le> int (length ''tok1'')"
    by (simp add: IndexRune_def Let_def)
  have bad4: "None \<noteq> (None :: error option) \<or> 6 < length ''tok1''
      \<or> IndexRune (take 6 (''tok1\<newline>X'' @ replicate 260 (CHR 0x00))) (CHR 0x0A) = - 1
      \<or> IndexRune (take 6 (''tok1\<newline>X'' @ replicate 260 (CHR 0x00))) (CHR 0x0A)
          \<le> int (length ''tok1'')"
    by (simp add: IndexRune_def Let_def)
  from serve_rejects_malformed_read [OF rd1 bad1, of dial_ok]
    serve_rejects_malformed_read [OF rd2 bad2, of dial_ok]
    serve_rejects_malformed_read [OF rd3 bad3, of dial_ok]
    serve_rejects_malformed_read [OF rd4 bad4, of dial_ok]
  show ?thesis by blast
qed

subsection \<open>What reaches the target\<close>

lemma serve_not_authenticated:
  "\<not> authenticated cfg p c \<Longrightarrow> session_rejected (fst (serve cfg localDialFunc p c))"
  by (rule serve_rejects) (auto simp: authenticated_def)

lemma serve_dialed:
  "dialed (fst (serve cfg localDialFunc p c)) =
     (if authenticated cfg p c
      then [drop (credsLen cfg)
              (take (nat (IndexRune (first_read cfg p c) (CHR 0x0A))) (first_read cfg p c))]
      else [])"
proof (cases "authenticated cfg p c")
  case True
  then show ?thesis
    by (simp add: authenticated_def serve_authenticated Let_def split: sum.splits option.splits)
next
  case False
  from serve_not_authenticated [OF this] False show ?thesis
    by (simp add: session_rejected_def)
qed

lemma serve_written:
  "written (fst (serve cfg localDialFunc p c)) =
     (if authenticated cfg p c
      then (case localDialFunc ''tcp''
                  (drop (credsLen cfg)
                    (take (nat (IndexRune (first_read cfg p c) (CHR 0x0A))) (first_read cfg p c))) of
              Inl e \<Rightarrow> []
            | Inr r \<Rightarrow> drop (nat (IndexRune (first_read cfg p c) (CHR 0x0A) + 1)) (first_read cfg p c))
      else [])"
proof (cases "authenticated cfg p c")
  case True
  then show ?thesis
    by (simp add: authenticated_def serve_authenticated Let_def split: sum.splits option.splits)
next
  case False
  from serve_not_authenticated [OF this] False show ?thesis
    by (simp add: session_rejected_def)
qed

text \<open>
  C10. What the handler sends towards the target is a function of the bytes that the first
  read delivered (and of its error): two runs with the same bytes read, whatever their
  pooled buffers held before, dial the same addresses and write the same bytes. Each address
  dialed is a contiguous piece of the bytes read and the bytes written are their end.
\<close>

theorem serve_target_depends_on_read_only:
  assumes "first_read cfg p c = first_read cfg p' c'" and "rd_err c = rd_err c'"
  shows "dialed (fst (serve cfg localDialFunc p c)) = dialed (fst (serve cfg localDialFunc p' c')) \<and>
         written (fst (serve cfg localDialFunc p c)) = written (fst (serve cfg localDialFunc p' c')) \<and>
         list_all (\<lambda>a. sublist a (first_read cfg p c)) (dialed (fst (serve cfg localDialFunc p c))) \<and>
         suffix (written (fst (serve cfg localDialFunc p c))) (first_read cfg p c)"
proof -
  from assms have "authenticated cfg p c = authenticated cfg p' c'"
    by (simp add: authenticated_def)
  with assms have same: "dialed (fst (serve cfg localDialFunc p c)) = dialed (fst (serve cfg localDialFunc p' c'))"
    "written (fst (serve cfg localDialFunc p c)) = written (fst (serve cfg localDialFunc p' c'))"
    by (simp_all add: serve_dialed serve_written split: sum.splits)
  have "sublist (drop k (take i xs)) xs" for k i and xs :: bytes
    by (meson sublist_drop sublist_take sublist_order.order_trans)
  then have sub: "list_all (\<lambda>a. sublist a (first_read cfg p c)) (dialed (fst (serve cfg localDialFunc p c)))"
    by (simp add: serve_dialed)
  have suf: "suffix (written (fst (serve cfg localDialFunc p c))) (first_read cfg p c)"
    by (simp add: serve_written suffix_drop split: sum.splits)
  from same sub suf show ?thesis by simp
qed

theorem serve_target_depends_on_read_only_witness:
  "pool_ok (main_config ''tok1'')
       [''tok1198.51.100.9:22\<newline>PRIVATE'' @ replicate 239 (CHR ''x'')] \<and>
   dialed (fst (serve (main_config ''tok1'') dial_ok
       [''tok1198.51.100.9:22\<newline>PRIVATE'' @ replicate 239 (CHR ''x'')] (client ''tok1h:1\<newline>'')))
     = dialed (fst (serve (main_config ''tok1'') dial_ok [] (client ''tok1h:1\<newline>''))) \<and>
   written (fst (serve (main_config ''tok1'') dial_ok
       [''tok1198.51.100.9:22\<newline>PRIVATE'' @ replicate 239 (CHR ''x'')] (client ''tok1h:1\<newline>'')))
     = written (fst (serve (main_config ''tok1'') dial_ok [] (client ''tok1h:1\<newline>'')))"
proof -
  have "first_read (main_config ''tok1'')
          [''tok1198.51.100.9:22\<newline>PRIVATE'' @ replicate 239 (CHR ''x'')] (client ''tok1h:1\<newline>'')
      = first_read (main_config ''tok1'') [] (client ''tok1h:1\<newline>'')"
    by (simp add: first_read_def bytePool_Get_def bytePool_New_def main_config_def client_def)
  from serve_target_depends_on_read_only [OF this refl, of dial_ok]
  show ?thesis by (simp add: pool_ok_def main_config_def)
qed

subsection \<open>The pooled buffer and whole frames\<close>

lemma pooled_buffer_length:
  "pool_ok cfg p \<Longrightarrow> length (fst (bytePool_Get cfg p)) = bufLen cfg"
  by (cases p) (simp_all add: pool_ok_def bytePool_Get_def bytePool_New_def)

lemma length_read_buf: "length (read_buf cfg p c) = length (fst (bytePool_Get cfg p))"
  by (simp add: read_buf_def first_read_def)

lemma serve_pool_ok:
  assumes "pool_ok cfg p"
  shows "pool_ok cfg (snd (serve cfg localDialFunc p c))"
proof -
  from assms have "pool_ok cfg (snd (bytePool_Get cfg p))"
    by (cases p) (simp_all add: pool_ok_def bytePool_Get_def)
  with pooled_buffer_length [OF assms] show ?thesis
    by (simp add: serve_pool bytePool_Put_def pool_ok_def length_read_buf)
qed

lemma first_read_whole:
  "pool_ok cfg p \<Longrightarrow> length (rd_chunk c) \<le> bufLen cfg \<Longrightarrow> first_read cfg p c = rd_chunk c"
  by (simp add: first_read_def pooled_buffer_length)

lemma authenticated_frame:
  assumes "rd_err c = None"
    and "first_read cfg p c = credsByte cfg @ address @ CHR 0x0A # rest"
    and "credsLen cfg = length (credsByte cfg)"
    and "CHR 0x0A \<notin> set (credsByte cfg)" and "CHR 0x0A \<notin> set address" and "address \<noteq> []"
  shows "authenticated cfg p c"
    and "IndexRune (first_read cfg p c) (CHR 0x0A) = int (length (credsByte cfg) + length address)"
proof -
  from assms(4,5) have "CHR 0x0A \<notin> set (credsByte cfg @ address)" by simp
  from IndexByte_first [OF this, of rest]
  show idx: "IndexRune (first_read cfg p c) (CHR 0x0A) = int (length (credsByte cfg) + length address)"
    by (simp add: IndexRune_def assms(2))
  from assms(6) have "0 < length address" by simp
  with idx assms(1,3) show "authenticated cfg p c"
    by (simp add: authenticated_def assms(2))
qed

lemma serve_frame:
  assumes "rd_err c = None"
    and "first_read cfg p c = credsByte cfg @ address @ CHR 0x0A # rest"
    and "credsLen cfg = length (credsByte cfg)"
    and "CHR 0x0A \<notin> set (credsByte cfg)" and "CHR 0x0A \<notin> set address" and "address \<noteq> []"
  shows "fst (serve cfg localDialFunc p c) =
    [PoolGet, SetReadDeadline (Some dialTimeout), SetReadDeadline None, Dial ''tcp'' address] @
    (case localDialFunc ''tcp'' address of
       Inl e \<Rightarrow> [PoolPut, Log [''remote connect failed'', RemoteAddr c], CloseConn]
     | Inr r \<Rightarrow>
         (if rest = [] then [PoolPut, Relay, CloseRemote, CloseConn]
          else case wr_err r of
            Some e \<Rightarrow> [SetWriteDeadline (Some dialTimeout), Write rest, PoolPut,
                         Log [''remote write failed:'', RemoteAddr c, error_Error e],
                         CloseRemote, CloseConn]
          | None \<Rightarrow> [SetWriteDeadline (Some dialTimeout), Write rest,
                         SetWriteDeadline None, PoolPut, Relay, CloseRemote, CloseConn]))"
proof -
  note a = authenticated_frame [OF assms]
  from a(1) have "fst (serve cfg localDialFunc p c) =
    (let idx = IndexRune (first_read cfg p c) (CHR 0x0A);
         rest = drop (nat (idx + 1)) (first_read cfg p c);
         addr = drop (credsLen cfg) (take (nat idx) (first_read cfg p c));
         start = [PoolGet, SetReadDeadline (Some dialTimeout), SetReadDeadline None, Dial ''tcp'' addr]
     in case localDialFunc ''tcp'' addr of
          Inl e \<Rightarrow> start @ [PoolPut, Log [''remote connect failed'', RemoteAddr c], CloseConn]
        | Inr r \<Rightarrow>
            (if rest = [] then start @ [PoolPut, Relay, CloseRemote, CloseConn]
             else case wr_err r of
               Some e \<Rightarrow> start @ [SetWriteDeadline (Some dialTimeout), Write rest, PoolPut,
                            Log [''remote write failed:'', RemoteAddr c, error_Error e],
                            CloseRemote, CloseConn]
             | None \<Rightarrow> start @ [SetWriteDeadline (Some dialTimeout), Write rest,
                            SetWriteDeadline None, PoolPut, Relay, CloseRemote, CloseConn]))"
    by (intro serve_authenticated) (simp_all add: authenticated_def)
  moreover have "drop (nat (IndexRune (first_read cfg p c) (CHR 0x0A) + 1)) (first_read cfg p c) = rest"
    by (simp only: a(2)) (simp add: assms(2) nat_add_distrib)
  moreover have "drop (credsLen cfg) (take (nat (IndexRune (first_read cfg p c) (CHR 0x0A))) (first_read cfg p c)) = address"
    by (simp only: a(2)) (simp add: assms(2,3))
  ultimately show ?thesis
    by (simp add: Let_def split: sum.splits option.splits)
qed

text \<open>
  C3, amended. Let the secret hold no newline, and let the first read deliver, without
  error, the whole frame secret + address + newline + payload, with an address that is not
  empty and holds no newline. Then the handler dials exactly the address, once. If the dial
  fails nothing is written and no relay starts. If it succeeds, the bytes written to the
  target are exactly the payload, all of them before the relay starts, and the relay starts
  unless the write of a payload that is not empty fails.
\<close>

theorem serve_valid_frame:
  assumes "CHR 0x0A \<notin> set secret" and "address \<noteq> []" and "CHR 0x0A \<notin> set address"
    and "rd_err c = None" and "rd_chunk c = secret @ address @ [CHR 0x0A] @ payload"
    and "pool_ok (main_config secret) p" and "length (rd_chunk c) \<le> bufLen (main_config secret)"
  shows "dialed (fst (serve (main_config secret) localDialFunc p c)) = [address] \<and>
    (case localDialFunc ''tcp'' address of
       Inl e \<Rightarrow> written (fst (serve (main_config secret) localDialFunc p c)) = [] \<and>
                count_list (fst (serve (main_config secret) localDialFunc p c)) Relay = 0
     | Inr r \<Rightarrow>
         written (fst (serve (main_config secret) localDialFunc p c)) = payload \<and>
         written (before_relay (fst (serve (main_config secret) localDialFunc p c))) = payload \<and>
         dialed (before_relay (fst (serve (main_config secret) localDialFunc p c))) = [address] \<and>
         count_list (fst (serve (main_config secret) localDialFunc p c)) Relay =
           (if payload \<noteq> [] \<and> wr_err r \<noteq> None then 0 else 1))"
proof -
  let ?cfg = "main_config secret"
  have cb: "credsByte ?cfg = secret" and cl: "credsLen ?cfg = length (credsByte ?cfg)"
    by (simp_all add: main_config_def)
  from assms(5-7) have fr: "first_read ?cfg p c = credsByte ?cfg @ address @ CHR 0x0A # payload"
    by (simp add: first_read_whole cb)
  from assms(1) have nl: "CHR 0x0A \<notin> set (credsByte ?cfg)" by (simp add: cb)
  note tr = serve_frame [OF assms(4) fr cl nl assms(3) assms(2), of localDialFunc]
  show ?thesis
    by (simp add: tr before_relay_def split: sum.splits option.splits)
qed

theorem serve_valid_frame_witness:
  "dialed (fst (serve (main_config ''tok1'') dial_ok [] (client ''tok1127.0.0.1:9000\<newline>HELLO'')))
     = [''127.0.0.1:9000''] \<and>
   written (fst (serve (main_config ''tok1'') dial_ok [] (client ''tok1127.0.0.1:9000\<newline>HELLO'')))
     = ''HELLO'' \<and>
   written (before_relay (fst (serve (main_config ''tok1'') dial_ok []
      (client ''tok1127.0.0.1:9000\<newline>HELLO'')))) = ''HELLO'' \<and>
   count_list (fst (serve (main_config ''tok1'') dial_ok [] (client ''tok1127.0.0.1:9000\<newline>HELLO'')))
      Relay = 1"
proof -
  have h1: "CHR 0x0A \<notin> set ''tok1''" by simp
  have h2: "''127.0.0.1:9000'' \<noteq> []" by simp
  have h3: "CHR 0x0A \<notin> set ''127.0.0.1:9000''" by simp
  have h4: "rd_err (client ''tok1127.0.0.1:9000\<newline>HELLO'') = None" by (simp add: client_def)
  have h5: "rd_chunk (client ''tok1127.0.0.1:9000\<newline>HELLO'') =
      ''tok1'' @ ''127.0.0.1:9000'' @ [CHR 0x0A] @ ''HELLO''" by (simp add: client_def)
  have h6: "pool_ok (main_config ''tok1'') []" by (simp add: pool_ok_def)
  have h7: "length (rd_chunk (client ''tok1127.0.0.1:9000\<newline>HELLO'')) \<le> bufLen (main_config ''tok1'')"
    by (simp add: client_def main_config_def)
  from serve_valid_frame [OF h1 h2 h3 h4 h5 h6 h7, of dial_ok]
  show ?thesis by (simp add: dial_ok_def)
qed

text \<open>
  C3 as stated fails for a secret that holds a newline: the handler searches the newline
  from the start of the bytes read, finds it inside the secret and rejects the frame.
\<close>

theorem serve_newline_in_secret_counterexample:
  "session_rejected (fst (serve (main_config ''a\<newline>b'') dial_ok []
      (client ''a\<newline>b127.0.0.1:9000\<newline>HELLO''))) \<and>
   dialed (fst (serve (main_config ''a\<newline>b'') dial_ok []
      (client ''a\<newline>b127.0.0.1:9000\<newline>HELLO''))) \<noteq> [''127.0.0.1:9000'']"
proof -
  have fr: "first_read (main_config ''a\<newline>b'') [] (client ''a\<newline>b127.0.0.1:9000\<newline>HELLO'')
      = ''a\<newline>b127.0.0.1:9000\<newline>HELLO''"
    by (simp add: first_read_def bytePool_Get_def bytePool_New_def main_config_def client_def)
  have "IndexRune (first_read (main_config ''a\<newline>b'') [] (client ''a\<newline>b127.0.0.1:9000\<newline>HELLO''))
      (CHR 0x0A) \<le> int (credsLen (main_config ''a\<newline>b''))"
    unfolding fr by (simp add: IndexRune_def main_config_def)
  then have "session_rejected (fst (serve (main_config ''a\<newline>b'') dial_ok []
      (client ''a\<newline>b127.0.0.1:9000\<newline>HELLO'')))"
    by (intro serve_rejects) blast
  then show ?thesis by (simp add: session_rejected_def)
qed

lemma bufLen_main_config: "bufLen (main_config secret) = length secret + 262"
  by (simp add: main_config_def)

text \<open>
  C7, amended. The buffer that the pool hands out has \<open>len(secret) + 262\<close> bytes, that is
  \<open>len(secret) + 253 + 2 + 1 + 5 + 1\<close>, and stays so from session to session. Let neither the
  secret nor the address hold a newline, and let the client send secret + address + newline
  (+ payload) to a read without error. If the address has between 1 and 261 bytes, the
  read delivers the frame up to the newline (and as much payload as fits) and the handler
  dials the address. If the address has 262 bytes, the read delivers secret + address only,
  there is no newline among the bytes read, and the session is rejected with nothing dialed.
\<close>

theorem pooled_buffer_boundary:
  assumes "CHR 0x0A \<notin> set secret" and "CHR 0x0A \<notin> set address"
    and "pool_ok (main_config secret) p" and "rd_err c = None"
    and "rd_chunk c = secret @ address @ CHR 0x0A # payload"
  shows "bufLen (main_config secret) = length secret + 253 + 2 + 1 + 5 + 1 \<and>
    length (fst (bytePool_Get (main_config secret) p)) = length secret + 262 \<and>
    pool_ok (main_config secret) (snd (serve (main_config secret) localDialFunc p c)) \<and>
    (address \<noteq> [] \<and> length address \<le> 261 \<longrightarrow>
       first_read (main_config secret) p c =
         secret @ address @ CHR 0x0A # take (261 - length address) payload \<and>
       dialed (fst (serve (main_config secret) localDialFunc p c)) = [address]) \<and>
    (length address = 262 \<longrightarrow>
       first_read (main_config secret) p c = secret @ address \<and>
       IndexRune (first_read (main_config secret) p c) (CHR 0x0A) = - 1 \<and>
       session_rejected (fst (serve (main_config secret) localDialFunc p c)))"
proof -
  let ?cfg = "main_config secret"
  have bl: "bufLen ?cfg = length secret + 262" by (rule bufLen_main_config)
  have len: "length (fst (bytePool_Get ?cfg p)) = length secret + 262"
    using pooled_buffer_length [OF assms(3)] by (simp add: bl)
  have cb: "credsByte ?cfg = secret" and cl: "credsLen ?cfg = length (credsByte ?cfg)"
    by (simp_all add: main_config_def)
  have fits: "first_read ?cfg p c = secret @ address @ CHR 0x0A # take (261 - length address) payload
      \<and> dialed (fst (serve ?cfg localDialFunc p c)) = [address]"
    if ne: "address \<noteq> []" and le: "length address \<le> 261"
  proof -
    from le have "262 - length address = Suc (261 - length address)" by simp
    then have fr: "first_read ?cfg p c =
        credsByte ?cfg @ address @ CHR 0x0A # take (261 - length address) payload"
      using le by (simp add: first_read_def len assms(5) cb)
    from assms(1) have nl: "CHR 0x0A \<notin> set (credsByte ?cfg)" by (simp add: cb)
    from authenticated_frame(1) [OF assms(4) fr cl nl assms(2) ne]
      authenticated_frame(2) [OF assms(4) fr cl nl assms(2) ne]
    have "dialed (fst (serve ?cfg localDialFunc p c)) =
        [drop (credsLen ?cfg) (take (length (credsByte ?cfg) + length address) (first_read ?cfg p c))]"
      by (simp add: serve_dialed nat_add_distrib)
    also have "\<dots> = [address]"
      by (simp only: fr) (simp add: cl)
    finally show ?thesis using fr by (simp add: cb)
  qed
  have over: "first_read ?cfg p c = secret @ address \<and>
       IndexRune (first_read ?cfg p c) (CHR 0x0A) = - 1 \<and>
       session_rejected (fst (serve ?cfg localDialFunc p c))"
    if long: "length address = 262"
  proof -
    from long have fr: "first_read ?cfg p c = secret @ address"
      by (simp add: first_read_def len assms(5))
    from assms(1,2) have "CHR 0x0A \<notin> set (secret @ address)" by simp
    then have idx: "IndexRune (first_read ?cfg p c) (CHR 0x0A) = - 1"
      by (simp add: fr IndexRune_def IndexByte_none)
    then have "session_rejected (fst (serve ?cfg localDialFunc p c))"
      by (intro serve_rejects) blast
    with fr idx show ?thesis by simp
  qed
  have sum: "bufLen ?cfg = length secret + 253 + 2 + 1 + 5 + 1"
    by (simp add: main_config_def)
  from sum len serve_pool_ok [OF assms(3), of localDialFunc c] fits over
  show ?thesis by blast
qed

theorem pooled_buffer_boundary_witness:
  "length (replicate 255 (CHR ''a'') @ '':65535'') = 261 \<and>
   dialed (fst (serve (main_config ''tok1'') dial_ok []
      (client (''tok1'' @ (replicate 255 (CHR ''a'') @ '':65535'') @ CHR 0x0A # [])))) =
     [replicate 255 (CHR ''a'') @ '':65535''] \<and>
   length (replicate 256 (CHR ''a'') @ '':65535'') = 262 \<and>
   session_rejected (fst (serve (main_config ''tok1'') dial_ok []
      (client (''tok1'' @ (replicate 256 (CHR ''a'') @ '':65535'') @ CHR 0x0A # []))))"
proof -
  let ?fit = "replicate 255 (CHR ''a'') @ '':65535''"
  let ?over = "replicate 256 (CHR ''a'') @ '':65535''"
  have s: "CHR 0x0A \<notin> set ''tok1''" by simp
  have p: "pool_ok (main_config ''tok1'') []" by (simp add: pool_ok_def)
  have a1: "CHR 0x0A \<notin> set ?fit" and n1: "?fit \<noteq> []" and l1: "length ?fit \<le> 261"
    and l1': "length ?fit = 261"
    by simp_all
  have a2: "CHR 0x0A \<notin> set ?over" and l2: "length ?over = 262"
    by simp_all
  have e: "rd_err (client x) = None" and r: "rd_chunk (client x) = x" for x
    by (simp_all add: client_def)
  from pooled_buffer_boundary [OF s a1 p e r, of dial_ok] n1 l1
  have fit: "dialed (fst (serve (main_config ''tok1'') dial_ok []
      (client (''tok1'' @ ?fit @ CHR 0x0A # [])))) = [?fit]"
    by blast
  from pooled_buffer_boundary [OF s a2 p e r, of dial_ok] l2
  have over: "session_rejected (fst (serve (main_config ''tok1'') dial_ok []
      (client (''tok1'' @ ?over @ CHR 0x0A # []))))"
    by blast
  from l1' fit l2 over show ?thesis by blast
qed

text \<open>
  C7 as stated fails for a secret that holds a newline: a frame with a short address fits
  in the buffer and is rejected all the same, because the first newline read lies inside
  the secret.
\<close>

theorem pooled_buffer_boundary_counterexample:
  "length ''example.com:443'' \<le> 261 \<and>
   session_rejected (fst (serve (main_config ''k\<newline>'') dial_ok []
      (client ''k\<newline>example.com:443\<newline>''))) \<and>
   dialed (fst (serve (main_config ''k\<newline>'') dial_ok []
      (client ''k\<newline>example.com:443\<newline>''))) \<noteq> [''example.com:443'']"
proof -
  have fr: "first_read (main_config ''k\<newline>'') [] (client ''k\<newline>example.com:443\<newline>'')
      = ''k\<newline>example.com:443\<newline>''"
    by (simp add: first_read_def bytePool_Get_def bytePool_New_def main_config_def client_def)
  have "IndexRune (first_read (main_config ''k\<newline>'') [] (client ''k\<newline>example.com:443\<newline>''))
      (CHR 0x0A) \<le> int (credsLen (main_config ''k\<newline>''))"
    unfolding fr by (simp add: IndexRune_def main_config_def)
  then have "session_rejected (fst (serve (main_config ''k\<newline>'') dial_ok []
      (client ''k\<newline>example.com:443\<newline>'')))"
    by (intro serve_rejects) blast
  then show ?thesis by (simp add: session_rejected_def)
qed

section \<open>Properties of the HTTP proxy and of a server without secret\<close>

lemma serve_no_auth_failed_log:
  assumes "take (credsLen cfg) (first_read cfg p c) = credsByte cfg"
  shows "count_list (fst (serve cfg localDialFunc p c)) (Log [''auth failed'', RemoteAddr c]) = 0"
  using assms
  by (simp add: serve_def split_beta conn_Read_first_read Let_def split: option.splits sum.splits)

lemma requestHandler_no_creds:
  "requestHandler None localDialFunc doTimeout req =
     requestHandler (Some (ProxyAuthorization req)) localDialFunc doTimeout req"
  by (simp add: requestHandler_def)

lemma requestHandler_no_reject_log:
  "count_list (fst (requestHandler None localDialFunc doTimeout req)) (Log [''Reject: wrong creds'']) = 0"
  by (simp add: requestHandler_def httpsHandler_def Let_def
      split: sum.splits option.splits prod.splits error.splits)

text \<open>
  C6. With no secret configured, authentication is off on both servers. On the framed
  protocol the comparison of the (empty) prefix with the (empty) secret always succeeds: the
  handler never logs a failed authentication, and it dials whenever the read succeeds and
  the first newline is not the first byte. On the HTTP proxy \<^verbatim>\<open>proxyAuth\<close> stays \<^verbatim>\<open>nil\<close>: the
  handler treats every request as it would one that carries the right header, and never
  rejects for wrong credentials.
\<close>

theorem no_secret_disables_authentication:
  "take (credsLen (main_config [])) x = credsByte (main_config []) \<and>
   dialed (fst (serve (main_config []) localDialFunc p c)) =
     (if rd_err c = None \<and> 0 < IndexRune (first_read (main_config []) p c) (CHR 0x0A)
      then [take (nat (IndexRune (first_read (main_config []) p c) (CHR 0x0A)))
              (first_read (main_config []) p c)]
      else []) \<and>
   count_list (fst (serve (main_config []) localDialFunc p c)) (Log [''auth failed'', RemoteAddr c]) = 0 \<and>
   main_proxyAuth [] = None \<and>
   requestHandler (main_proxyAuth []) localDialFunc doTimeout req =
     requestHandler (Some (ProxyAuthorization req)) localDialFunc doTimeout req \<and>
   count_list (fst (requestHandler (main_proxyAuth []) localDialFunc doTimeout req))
     (Log [''Reject: wrong creds'']) = 0"
proof -
  let ?cfg = "main_config []"
  have cl: "credsLen ?cfg = 0" and cb: "credsByte ?cfg = []"
    by (simp_all add: main_config_def)
  have cmp: "take (credsLen ?cfg) y = credsByte ?cfg" for y
    by (simp add: cl cb)
  have auth: "authenticated ?cfg p c \<longleftrightarrow>
      rd_err c = None \<and> 0 < IndexRune (first_read ?cfg p c) (CHR 0x0A)"
    using IndexByte_ge [of "first_read ?cfg p c" "CHR 0x0A"]
    by (auto simp: authenticated_def cl cb IndexRune_def)
  have d: "dialed (fst (serve ?cfg localDialFunc p c)) =
     (if rd_err c = None \<and> 0 < IndexRune (first_read ?cfg p c) (CHR 0x0A)
      then [take (nat (IndexRune (first_read ?cfg p c) (CHR 0x0A))) (first_read ?cfg p c)]
      else [])"
    by (simp add: serve_dialed auth cl)
  have pa: "main_proxyAuth [] = None" by (simp add: main_proxyAuth_def)
  show ?thesis
    using cmp [of x] d serve_no_auth_failed_log [OF cmp, of localDialFunc p c]
      requestHandler_no_creds [of localDialFunc doTimeout req]
      requestHandler_no_reject_log [of localDialFunc doTimeout req]
    by (simp add: pa)
qed


theorem no_secret_disables_authentication_witness:
  "dialed (fst (serve (main_config []) dial_ok [] (client ''127.0.0.1:9000\<newline>HI''))) =
     [''127.0.0.1:9000''] \<and>
   requestHandler (main_proxyAuth []) dial_ok forward_ok
     \<lparr> Method = ''CONNECT'', Host = ''example.com:443'', Path = ''/'', ProxyAuthorization = ''Basic bogus'',
       Scheme = ''http'' \<rparr> =
   requestHandler (Some ''Basic bogus'') dial_ok forward_ok
     \<lparr> Method = ''CONNECT'', Host = ''example.com:443'', Path = ''/'', ProxyAuthorization = ''Basic bogus'',
       Scheme = ''http'' \<rparr>"
proof -
  have fr: "first_read (main_config []) [] (client ''127.0.0.1:9000\<newline>HI'') = ''127.0.0.1:9000\<newline>HI''"
    by (simp add: first_read_def bytePool_Get_def bytePool_New_def main_config_def client_def)
  have rd: "rd_err (client ''127.0.0.1:9000\<newline>HI'') = None" by (simp add: client_def)
  from no_secret_disables_authentication [of "[]" dial_ok "[]" "client ''127.0.0.1:9000\<newline>HI''" forward_ok
      "\<lparr> Method = ''CONNECT'', Host = ''example.com:443'', Path = ''/'', ProxyAuthorization = ''Basic bogus'',
       Scheme = ''http'' \<rparr>"]
  show ?thesis
    by (simp add: fr rd IndexRune_def main_proxyAuth_def)
qed

section \<open>Properties of the accept loop\<close>

lemma tls_NewListener_error:
  "tls_NewListener (AcceptError err # ln) = AcceptError err # tls_NewListener ln"
  by (simp add: tls_NewListener_def)

lemma main_loop_error:
  "main_loop g (AcceptError err # ln) =
     (if is_net_timeout err then
        (Log [''Timeout error when accepting new connections:'', error_Error err] # Sleep 1 #
           fst (main_loop g ln), snd (main_loop g ln))
      else if err = EOF \<or> strings_Contains (error_Error err) ''use of closed network connection''
      then ([], Returned)
      else ([Log [''Permanent error when accepting new connections:'', error_Error err],
             Panic [error_Error err]], Panicked))"
proof (cases "is_net_timeout err")
  case True
  obtain evs res ln' where acc: "acceptConn g ln = (evs, res, ln')"
    by (cases "acceptConn g ln") auto
  show ?thesis
  proof (cases res)
    case None
    with True acc show ?thesis
      by (simp add: main_loop.simps [of g "AcceptError err # ln"] main_loop.simps [of g ln])
  next
    case (Some r)
    with True acc show ?thesis
      by (cases r)
        (simp_all add: main_loop.simps [of g "AcceptError err # ln"] main_loop.simps [of g ln]
          split: prod.splits)
  qed
next
  case False
  then show ?thesis
    by (simp add: main_loop.simps [of g "AcceptError err # ln"])
qed

text \<open>
  C5. An error of \<^verbatim>\<open>Accept\<close> is treated in one of three ways. A timeout is logged and,
  after a sleep of one second, the loop goes on with the next \<^verbatim>\<open>Accept\<close>. \<^verbatim>\<open>io.EOF\<close> or an
  error whose message says that the listener is closed ends \<^verbatim>\<open>main\<close> by a plain return, with
  no log and no panic. Any other error is logged and ends \<^verbatim>\<open>main\<close> in a panic.
\<close>

theorem accept_error_classification:
  "main g (AcceptError err # ln) =
     (if is_net_timeout err then
        (Log [''Timeout error when accepting new connections:'', error_Error err] # Sleep 1 #
           fst (main g ln), snd (main g ln))
      else if err = EOF \<or> strings_Contains (error_Error err) ''use of closed network connection''
      then ([], Returned)
      else ([Log [''Permanent error when accepting new connections:'', error_Error err],
             Panic [error_Error err]], Panicked))"
  unfolding main_def tls_NewListener_error by (rule main_loop_error)

lemma main_nil: "main g [] = ([], Waiting)"
  by (simp add: main_def tls_NewListener_def main_loop.simps [of g "[]"])

theorem accept_error_classification_witness:
  "main program_globals [AcceptError (NetError True ''accept tcp [::]:443: i/o timeout'')] =
     ([Log [''Timeout error when accepting new connections:'', ''accept tcp [::]:443: i/o timeout''],
       Sleep 1], Waiting) \<and>
   main program_globals [AcceptError EOF, Accepted (peer TCPConn [])] = ([], Returned) \<and>
   main program_globals [AcceptError (OtherError ''accept tcp [::]:443: use of closed network connection''),
      Accepted (peer TCPConn [])] = ([], Returned) \<and>
   main program_globals [AcceptError (OtherError ''accept tcp [::]:443: accept4: bad file descriptor''),
      Accepted (peer TCPConn [])] =
     ([Log [''Permanent error when accepting new connections:'',
            ''accept tcp [::]:443: accept4: bad file descriptor''],
       Panic [''accept tcp [::]:443: accept4: bad file descriptor'']], Panicked)"
proof -
  have a: "strings_Contains ''accept tcp [::]:443: use of closed network connection''
      ''use of closed network connection''"
    by simp
  have b: "\<not> strings_Contains ''accept tcp [::]:443: accept4: bad file descriptor''
      ''use of closed network connection''"
    by simp
  show ?thesis
    using accept_error_classification [of program_globals "NetError True ''accept tcp [::]:443: i/o timeout''" "[]"]
      accept_error_classification [of program_globals EOF "[Accepted (peer TCPConn [])]"]
      accept_error_classification [of program_globals "OtherError ''accept tcp [::]:443: use of closed network connection''"
        "[Accepted (peer TCPConn [])]"]
      accept_error_classification [of program_globals "OtherError ''accept tcp [::]:443: accept4: bad file descriptor''"
        "[Accepted (peer TCPConn [])]"]
      a b
    by (simp add: main_nil)
qed









section \<open>Properties of the HTTP proxy\<close>

lemma requestHandler_wrong_creds:
  assumes "ProxyAuthorization req \<noteq> pa"
  shows "requestHandler (Some pa) localDialFunc doTimeout req =
     ([Log [''Reject: wrong creds'']], \<lparr> statusCode = StatusBadRequest, header = Map.empty \<rparr>)"
  using assms by (simp add: requestHandler_def)

lemma requestHandler_connect:
  assumes "proxyAuth = None \<or> proxyAuth = Some (ProxyAuthorization req)"
    and "Method req = ''CONNECT''" and "Host req \<noteq> []"
    and "SplitHostPort (Host req) = Inr (hostname, port)"
  shows "requestHandler proxyAuth localDialFunc doTimeout req =
    (case localDialFunc ''tcp'' (''['' @ hostname @ '']:'' @ port) of
       Inl err \<Rightarrow>
         ([Dial ''tcp'' (''['' @ hostname @ '']:'' @ port),
           Log [''httpsHandler:'', Host req, error_Error err]],
          \<lparr> statusCode = StatusInternalServerError, header = Map.empty \<rparr>)
     | Inr r \<Rightarrow>
         ([Dial ''tcp'' (''['' @ hostname @ '']:'' @ port), Hijack],
          \<lparr> statusCode = StatusOK,
            header = [''Connection'' \<mapsto> ''keep-alive'', ''Keep-Alive'' \<mapsto> ''timeout=120, max=5''] \<rparr>))"
proof -
  from assms(3) have h: "\<not> length (Host req) < 1" by (cases "Host req") simp_all
  from assms(1) have a: "\<not> (case proxyAuth of None \<Rightarrow> False | Some pa \<Rightarrow> ProxyAuthorization req \<noteq> pa)"
    by auto
  show ?thesis
    unfolding requestHandler_def
    by (simp only: a h assms(2,4) Let_def if_False if_True simp_thms sum.case prod.case)
       (simp add: httpsHandler_def split: sum.splits)
qed

text \<open>
  C4. With credentials configured, a request whose \<^verbatim>\<open>Proxy-Authorization\<close> value is not
  \<^verbatim>\<open>"Basic "\<close> followed by the base64 encoding of the credentials gets status 400 and the
  handler does nothing but log the rejection: nothing is dialed. A \<^verbatim>\<open>CONNECT\<close> request with
  the right value, a host that splits into host name and port, and a target that accepts
  the connection gets status 200, and the connection is hijacked for the relay to the
  target just dialed.
\<close>

theorem proxy_authorization_checked:
  assumes "creds \<noteq> []"
  shows "(ProxyAuthorization req \<noteq> ''Basic '' @ EncodeToString creds \<longrightarrow>
            statusCode (snd (requestHandler (main_proxyAuth creds) localDialFunc doTimeout req)) = 400 \<and>
            fst (requestHandler (main_proxyAuth creds) localDialFunc doTimeout req) =
              [Log [''Reject: wrong creds'']]) \<and>
         (ProxyAuthorization req = ''Basic '' @ EncodeToString creds \<and> Method req = ''CONNECT'' \<and>
          Host req \<noteq> [] \<and> SplitHostPort (Host req) = Inr (hostname, port) \<and>
          localDialFunc ''tcp'' (''['' @ hostname @ '']:'' @ port) = Inr r \<longrightarrow>
            statusCode (snd (requestHandler (main_proxyAuth creds) localDialFunc doTimeout req)) = 200 \<and>
            fst (requestHandler (main_proxyAuth creds) localDialFunc doTimeout req) =
              [Dial ''tcp'' (''['' @ hostname @ '']:'' @ port), Hijack])"
proof -
  from assms have pa: "main_proxyAuth creds = Some (''Basic '' @ EncodeToString creds)"
    by (simp add: main_proxyAuth_def)
  have wrong: "statusCode (snd (requestHandler (main_proxyAuth creds) localDialFunc doTimeout req)) = 400 \<and>
      fst (requestHandler (main_proxyAuth creds) localDialFunc doTimeout req) = [Log [''Reject: wrong creds'']]"
    if "ProxyAuthorization req \<noteq> ''Basic '' @ EncodeToString creds"
    using that by (simp add: pa requestHandler_wrong_creds StatusBadRequest_def)
  have right: "statusCode (snd (requestHandler (main_proxyAuth creds) localDialFunc doTimeout req)) = 200 \<and>
      fst (requestHandler (main_proxyAuth creds) localDialFunc doTimeout req) =
        [Dial ''tcp'' (''['' @ hostname @ '']:'' @ port), Hijack]"
    if ok: "ProxyAuthorization req = ''Basic '' @ EncodeToString creds" and m: "Method req = ''CONNECT''"
      and h: "Host req \<noteq> []" and sp: "SplitHostPort (Host req) = Inr (hostname, port)"
      and d: "localDialFunc ''tcp'' (''['' @ hostname @ '']:'' @ port) = Inr r"
  proof -
    from ok have "main_proxyAuth creds = None \<or> main_proxyAuth creds = Some (ProxyAuthorization req)"
      by (simp add: pa)
    from requestHandler_connect [OF this m h sp, of localDialFunc doTimeout] d
    show ?thesis by (simp add: StatusOK_def)
  qed
  from wrong right show ?thesis by blast
qed


lemma encode_example: "EncodeToString ''user:pass'' = ''dXNlcjpwYXNz''"
  by (simp add: encodeStd_def)

lemma split_example: "SplitHostPort ''example.com:443'' = Inr (''example.com'', ''443'')"
  by (simp add: SplitHostPort_def LastIndexByte_def Let_def)

theorem proxy_authorization_checked_witness:
  "''user:pass'' \<noteq> [] \<and>
   main_proxyAuth ''user:pass'' = Some ''Basic dXNlcjpwYXNz'' \<and>
   fst (requestHandler (main_proxyAuth ''user:pass'') dial_ok forward_ok
     \<lparr> Method = ''CONNECT'', Host = ''example.com:443'', Path = ''/'',
       ProxyAuthorization = ''Basic d3Jvbmc6Y3JlZHM='',
       Scheme = ''http'' \<rparr>) = [Log [''Reject: wrong creds'']] \<and>
   statusCode (snd (requestHandler (main_proxyAuth ''user:pass'') dial_ok forward_ok
     \<lparr> Method = ''CONNECT'', Host = ''example.com:443'', Path = ''/'',
       ProxyAuthorization = ''Basic d3Jvbmc6Y3JlZHM='',
       Scheme = ''http'' \<rparr>)) = 400 \<and>
   fst (requestHandler (main_proxyAuth ''user:pass'') dial_ok forward_ok
     \<lparr> Method = ''CONNECT'', Host = ''example.com:443'', Path = ''/'',
       ProxyAuthorization = ''Basic dXNlcjpwYXNz'',
       Scheme = ''http'' \<rparr>) =
     [Dial ''tcp'' ''[example.com]:443'', Hijack] \<and>
   statusCode (snd (requestHandler (main_proxyAuth ''user:pass'') dial_ok forward_ok
     \<lparr> Method = ''CONNECT'', Host = ''example.com:443'', Path = ''/'',
       ProxyAuthorization = ''Basic dXNlcjpwYXNz'',
       Scheme = ''http'' \<rparr>)) = 200"
proof -
  let ?bad = "\<lparr> Method = ''CONNECT'', Host = ''example.com:443'', Path = ''/'',
       ProxyAuthorization = ''Basic d3Jvbmc6Y3JlZHM='',
       Scheme = ''http'' \<rparr>"
  let ?good = "\<lparr> Method = ''CONNECT'', Host = ''example.com:443'', Path = ''/'',
       ProxyAuthorization = ''Basic dXNlcjpwYXNz'',
       Scheme = ''http'' \<rparr>"
  have ne: "''user:pass'' \<noteq> []" by simp
  have pa: "main_proxyAuth ''user:pass'' = Some ''Basic dXNlcjpwYXNz''"
    unfolding main_proxyAuth_def encode_example by simp
  have b: "ProxyAuthorization ?bad \<noteq> ''Basic '' @ EncodeToString ''user:pass''"
    unfolding encode_example by simp
  have g: "ProxyAuthorization ?good = ''Basic '' @ EncodeToString ''user:pass'' \<and>
      Method ?good = ''CONNECT'' \<and> Host ?good \<noteq> [] \<and>
      SplitHostPort (Host ?good) = Inr (''example.com'', ''443'') \<and>
      dial_ok ''tcp'' (''['' @ ''example.com'' @ '']:'' @ ''443'') = Inr \<lparr> wr_err = None \<rparr>"
    unfolding encode_example by (simp add: split_example dial_ok_def)
  note bad = proxy_authorization_checked [OF ne, where req = ?bad and localDialFunc = dial_ok and doTimeout = forward_ok,
      THEN conjunct1, rule_format, OF b]
  note good = proxy_authorization_checked [OF ne, where req = ?good and localDialFunc = dial_ok and doTimeout = forward_ok
      and hostname = "''example.com''" and port = "''443''" and r = "\<lparr> wr_err = None \<rparr>",
      THEN conjunct2, rule_format, OF g]
  from ne pa bad good show ?thesis by simp
qed















end
